theory Spec2Isabelle
  imports Complex_Main
begin

section \<open>Python values and exceptions\<close>

text \<open>
  The pipeline of \<^verbatim>\<open>svm.py\<close> and the stream publisher of \<^verbatim>\<open>API.py\<close>, as
  functions on explicit state. A \<open>string\<close> stands for a Python \<open>str\<close> (its characters
  are the list's elements), a score is a \<open>real\<close> (the classifier adapter only ever
  produces \<open>1.0\<close> and \<open>-1.0\<close>), a dict literal is an association list in the order it
  is written.
\<close>

datatype error =
    AttributeError
  | TypeError
  | SqliteError
  | ModelError
  | ConnectionClosed
  | SerializeError

datatype pyval =
    PInt int
  | PFloat real
  | PStr string
  | PList "pyval list"
  | PDict "(string \<times> pyval) list"

type_synonym pydict = "(string \<times> pyval) list"

section \<open>String operations used by the protocol client\<close>

text \<open>\<^verbatim>\<open>s.startswith(p)\<close>.\<close>

definition startswith :: "string \<Rightarrow> string \<Rightarrow> bool" where
  "startswith s p = (take (length p) s = p)"

text \<open>\<^verbatim>\<open>p in s\<close> for two strings: \<open>p\<close> occurs in \<open>s\<close> at some position.\<close>

fun contains :: "string \<Rightarrow> string \<Rightarrow> bool" where
  "contains p [] = (p = [])"
| "contains p (c # cs) = (startswith (c # cs) p \<or> contains p cs)"

text \<open>
  \<^verbatim>\<open>s.split(sep, maxsplit)\<close> for a one-character separator: cut at each of the first
  \<open>maxsplit\<close> separators; neighbouring separators give empty parts.
\<close>

fun split_max :: "char \<Rightarrow> nat \<Rightarrow> string \<Rightarrow> string list" where
  "split_max sep 0 s = [s]"
| "split_max sep (Suc n) s =
     (if sep \<in> set s
      then takeWhile (\<lambda>c. c \<noteq> sep) s # split_max sep n (tl (dropWhile (\<lambda>c. c \<noteq> sep) s))
      else [s])"

text \<open>\<^verbatim>\<open>s.split("!")[0]\<close>: the part before the first separator, all of \<open>s\<close> without one.\<close>

definition split_first :: "char \<Rightarrow> string \<Rightarrow> string" where
  "split_first sep s = takeWhile (\<lambda>c. c \<noteq> sep) s"

section \<open>The classifier, its cache and the persistence store\<close>

text \<open>
  \<^verbatim>\<open>deque(maxlen=m).append(x)\<close>: the element is added on the right and, when the
  deque then holds more than \<open>m\<close> elements, one is dropped on the left.
\<close>

definition deque_append :: "nat \<Rightarrow> 'a \<Rightarrow> 'a list \<Rightarrow> 'a list" where
  "deque_append m x xs = (let ys = xs @ [x] in if m < length ys then tl ys else ys)"

text \<open>
  \<^verbatim>\<open>d[a:]\<close> on a \<open>collections.deque\<close>: a deque takes integer indices only, a slice
  raises \<open>TypeError\<close> whatever the bounds and the contents.
\<close>

definition deque_getitem_slice :: "'a list \<Rightarrow> int \<Rightarrow> error + 'a list" where
  "deque_getitem_slice d start = Inl TypeError"

text \<open>\<^verbatim>\<open>np.average\<close> of a sequence of numbers.\<close>

definition np_average :: "real list \<Rightarrow> real" where
  "np_average xs = sum_list xs / real (length xs)"

datatype printed =
    Received nat string string string
  | Stored string string string
  | Sentiment string real
  | ProcessingError error

text \<open>
  The state the classifier works on: its two deques, the two tables of
  \<^verbatim>\<open>messages.db\<close> (rows in insertion order) and what was printed.
\<close>

record classifier_state =
  recent_messages :: "pyval list"
  sentiment_cache :: "real list"
  twitch_messages :: "(int \<times> string \<times> string \<times> string \<times> string) list"
  message_sentiments :: "(int \<times> int \<times> real \<times> string) list"
  console :: "printed list"

text \<open>
  What the surroundings decide while one line is handled: whether a database write or
  a websocket send raises, what the pickled model predicts, and the clock
  (\<open>utcnow env k\<close> is the \<open>k\<close>-th reading of \<^verbatim>\<open>datetime.utcnow()\<close>).
\<close>

record env =
  store_message_fault :: "error option"
  predict :: "string \<Rightarrow> error + string"
  store_sentiment_fault :: "error option"
  send_fault :: "error option"
  utcnow :: "nat \<Rightarrow> string"

definition N_max :: nat where
  "N_max = 1000"

text \<open>\<^verbatim>\<open>SentimentClassifier.__init__\<close>: two empty deques of capacity 1000, empty tables.\<close>

definition init :: classifier_state where
  "init = \<lparr>recent_messages = [], sentiment_cache = [], twitch_messages = [],
           message_sentiments = [], console = []\<rparr>"

definition analyze_sentiment :: "env \<Rightarrow> string \<Rightarrow> error + real" where
  "analyze_sentiment env message =
     (case predict env message of
        Inl e \<Rightarrow> Inl e
      | Inr prediction \<Rightarrow> Inr (if prediction = ''pos'' then 1 else - 1))"

definition store_message ::
    "env \<Rightarrow> classifier_state \<Rightarrow> string \<Rightarrow> string \<Rightarrow> string \<Rightarrow> error + (int \<times> classifier_state)" where
  "store_message env self user channel message =
     (case store_message_fault env of
        Some e \<Rightarrow> Inl e
      | None \<Rightarrow>
          (let message_id = int (length (twitch_messages self)) + 1
           in Inr (message_id,
                   self\<lparr>twitch_messages := twitch_messages self @
                          [(message_id, utcnow env 0, user, channel, message)]\<rparr>)))"

definition store_sentiment ::
    "env \<Rightarrow> classifier_state \<Rightarrow> int \<Rightarrow> real \<Rightarrow> error + classifier_state" where
  "store_sentiment env self message_id sentiment_score =
     (case store_sentiment_fault env of
        Some e \<Rightarrow> Inl e
      | None \<Rightarrow>
          Inr (self\<lparr>message_sentiments := message_sentiments self @
                 [(int (length (message_sentiments self)) + 1, message_id, sentiment_score,
                   utcnow env 1)]\<rparr>))"

text \<open>
  The cache update of \<^verbatim>\<open>process_message\<close> (the two \<open>append\<close> calls under
  \<^verbatim>\<open># Update cache\<close>): the entry dict is built first, then appended to
  \<open>recent_messages\<close>, then the score to \<open>sentiment_cache\<close>.
\<close>

definition cache_entry :: "string \<Rightarrow> string \<Rightarrow> string \<Rightarrow> real \<Rightarrow> string \<Rightarrow> pyval" where
  "cache_entry user channel message sentiment_score ts =
     PDict [(''user'', PStr user), (''channel'', PStr channel), (''message'', PStr message),
            (''sentiment'', PFloat sentiment_score), (''timestamp'', PStr ts)]"

definition update_cache :: "pyval \<Rightarrow> real \<Rightarrow> classifier_state \<Rightarrow> classifier_state" where
  "update_cache entry sentiment_score self =
     self\<lparr>recent_messages := deque_append N_max entry (recent_messages self),
          sentiment_cache := deque_append N_max sentiment_score (sentiment_cache self)\<rparr>"

text \<open>A sequence of cache updates, oldest first.\<close>

fun record_all :: "(pyval \<times> real) list \<Rightarrow> classifier_state \<Rightarrow> classifier_state" where
  "record_all [] self = self"
| "record_all ((entry, sentiment_score) # rest) self =
     record_all rest (update_cache entry sentiment_score self)"

text \<open>The cache invariant: the two deques are equally long and within capacity.\<close>

definition cache_inv :: "classifier_state \<Rightarrow> bool" where
  "cache_inv self =
     (length (recent_messages self) = length (sentiment_cache self) \<and>
      length (sentiment_cache self) \<le> N_max)"

definition print :: "printed list \<Rightarrow> classifier_state \<Rightarrow> classifier_state" where
  "print ls self = self\<lparr>console := console self @ ls\<rparr>"

text \<open>
  \<^verbatim>\<open>process_message\<close>: one \<open>try\<close> block around store, classify, store, cache update
  and the two prints; any exception leaves the block at the statement that raised it,
  and the handler prints it.
\<close>

definition process_message ::
    "env \<Rightarrow> classifier_state \<Rightarrow> string \<Rightarrow> string \<Rightarrow> string \<Rightarrow> classifier_state" where
  "process_message env self user channel message =
     (case store_message env self user channel message of
        Inl e \<Rightarrow> print [ProcessingError e] self
      | Inr (message_id, s1) \<Rightarrow>
          (case analyze_sentiment env message of
             Inl e \<Rightarrow> print [ProcessingError e] s1
           | Inr sentiment_score \<Rightarrow>
               (case store_sentiment env s1 message_id sentiment_score of
                  Inl e \<Rightarrow> print [ProcessingError e] s1
                | Inr s2 \<Rightarrow>
                    print [Stored user channel (take 50 message),
                           Sentiment (if sentiment_score > 0 then ''POSITIVE'' else ''NEGATIVE'')
                             sentiment_score]
                      (update_cache
                         (cache_entry user channel message sentiment_score (utcnow env 2))
                         sentiment_score s2))))"

text \<open>
  \<^verbatim>\<open>get_average_sentiment\<close>, the function whose \<open>def\<close> stands in the body of
  \<open>process_message\<close>, after its \<open>try\<close> statement.
\<close>

text \<open>The three generator sums of the \<open>sentiment_distribution\<close> dict.\<close>

definition positive_count :: "real list \<Rightarrow> nat" where
  "positive_count recent_sentiments = length (filter (\<lambda>s. s > 0.1) recent_sentiments)"

definition neutral_count :: "real list \<Rightarrow> nat" where
  "neutral_count recent_sentiments =
     length (filter (\<lambda>s. - 0.1 \<le> s \<and> s \<le> 0.1) recent_sentiments)"

definition negative_count :: "real list \<Rightarrow> nat" where
  "negative_count recent_sentiments = length (filter (\<lambda>s. s < - 0.1) recent_sentiments)"

definition sentiment_distribution :: "real list \<Rightarrow> pydict" where
  "sentiment_distribution recent_sentiments =
     [(''positive'', PInt (int (positive_count recent_sentiments))),
      (''neutral'', PInt (int (neutral_count recent_sentiments))),
      (''negative'', PInt (int (negative_count recent_sentiments)))]"

definition get_average_sentiment :: "string \<Rightarrow> classifier_state \<Rightarrow> int \<Rightarrow> error + pydict" where
  "get_average_sentiment now self n_messages =
     (if sentiment_cache self = []
      then Inr [(''average_sentiment'', PInt 0), (''message_count'', PInt 0),
                (''timestamp'', PStr now)]
      else
        (case deque_getitem_slice (sentiment_cache self) (- n_messages) of
           Inl e \<Rightarrow> Inl e
         | Inr recent_sentiments \<Rightarrow>
             (let avg_sentiment = np_average recent_sentiments
              in Inr [(''message'', PList (map PFloat recent_sentiments)),
                      (''message_count'', PInt (int (length recent_sentiments))),
                      (''timestamp'', PStr now),
                      (''sentiment_distribution'',
                         PDict (sentiment_distribution recent_sentiments))])))"

text \<open>
  The names an instance of \<open>SentimentClassifier\<close> answers to: the attributes set by
  \<open>__init__\<close> and the functions defined in the class body. \<open>get_average_sentiment\<close> is
  not among them: its \<open>def\<close> is indented into \<open>process_message\<close>, so it is a local of
  that function and no attribute of the class.
\<close>

definition SentimentClassifier_attributes :: "string list" where
  "SentimentClassifier_attributes =
     [''vectorizer'', ''classifier'', ''recent_messages'', ''sentiment_cache'', ''lock'',
      ''__init__'', ''init_database'', ''analyze_sentiment'', ''store_message'',
      ''store_sentiment'', ''process_message'']"

text \<open>\<^verbatim>\<open>analyzer.get_average_sentiment(n)\<close>: the attribute lookup, then the call.\<close>

definition call_get_average_sentiment ::
    "string \<Rightarrow> classifier_state \<Rightarrow> int \<Rightarrow> error + pydict" where
  "call_get_average_sentiment now self n_messages =
     (if ''get_average_sentiment'' \<in> set SentimentClassifier_attributes
      then get_average_sentiment now self n_messages
      else Inl AttributeError)"

section \<open>The protocol client\<close>

text \<open>
  \<^verbatim>\<open>parse_irc_message\<close>. No statement of its \<open>try\<close> block raises on a \<open>str\<close>: the
  indices 0, 2 and 3 are read only when \<open>parts\<close> has four elements, a slice and
  \<open>split(...)[0]\<close> are defined on every string. The handler is unreachable and the
  function is total.
\<close>

definition parse_irc_message :: "string \<Rightarrow> string option \<times> string option \<times> string option" where
  "parse_irc_message raw_message =
     (if contains ''PRIVMSG'' raw_message \<and> \<not> startswith raw_message ''PING''
      then
        (let parts = split_max CHR '' '' 3 raw_message
         in if length parts \<ge> 4
            then
              (let user_part = parts ! 0
               in if startswith user_part '':''
                  then
                    (let user = split_first CHR ''!'' (drop 1 user_part);
                         channel = parts ! 2;
                         channel = (if startswith channel ''#'' then drop 1 channel else channel);
                         message = parts ! 3;
                         message = (if startswith message '':'' then drop 1 message else message)
                     in (Some user, Some channel, Some message))
                  else (None, None, None))
            else (None, None, None))
      else (None, None, None))"

record reader =
  message_count :: nat
  outbox :: "string list"
  analyzer :: classifier_state

text \<open>Truth value of an optional string: \<open>None\<close> and the empty string are false.\<close>

fun truthy :: "string option \<Rightarrow> bool" where
  "truthy None = False"
| "truthy (Some s) = (s \<noteq> [])"

text \<open>
  The body of the \<^verbatim>\<open>async for\<close> loop of \<open>connect_and_listen\<close> for one inbound line.
  \<open>Inl\<close> is an exception leaving the loop (a failed send), which ends the connection.
\<close>

definition listen_step :: "env \<Rightarrow> reader \<Rightarrow> string \<Rightarrow> error + reader" where
  "listen_step env r raw_message =
     (if contains ''PING'' raw_message
      then
        (case send_fault env of
           Some e \<Rightarrow> Inl e
         | None \<Rightarrow> Inr (r\<lparr>outbox := outbox r @ [''PONG :tmi.twitch.tv'']\<rparr>))
      else
        (case parse_irc_message raw_message of
           (user, channel, message) \<Rightarrow>
             if truthy user \<and> truthy channel \<and> truthy message
             then
               (let n = message_count r + 1;
                    a = print [Received n (the user) (the channel) (the message)] (analyzer r)
                in Inr (r\<lparr>message_count := n,
                          analyzer := process_message env a (the user) (the channel)
                                        (the message)\<rparr>))
             else Inr r))"

text \<open>The loop over the lines received, each with its surroundings; it ends with the
  input or at the first exception.\<close>

fun listen :: "reader \<Rightarrow> (env \<times> string) list \<Rightarrow> error + reader" where
  "listen r [] = Inr r"
| "listen r ((env, raw_message) # rest) =
     (case listen_step env r raw_message of
        Inl e \<Rightarrow> Inl e
      | Inr r' \<Rightarrow> listen r' rest)"

text \<open>
  The chat-post shape in the words of the specification,
  \<^verbatim>\<open>:<user>!<...> <COMMAND> #<channel> :<text>\<close>: four parts separated by the first
  three spaces, the first with a leading colon and a \<open>!\<close>, the third with a leading
  \<open>#\<close>, the fourth with a leading colon.
\<close>

definition spec_chat_post_shape :: "string \<Rightarrow> bool" where
  "spec_chat_post_shape raw_message =
     (case split_max CHR '' '' 3 raw_message of
        [prefix, command, channel, text] \<Rightarrow>
          startswith prefix '':'' \<and> CHR ''!'' \<in> set prefix \<and> command \<noteq> [] \<and>
          startswith channel ''#'' \<and> startswith text '':''
      | _ \<Rightarrow> False)"

section \<open>The stream publisher\<close>

text \<open>
  What one subscriber's generator does: it yields a payload or sleeps. The global
  \<open>sentiment_analyzer\<close> is \<open>None\<close> or an object with a \<open>get_average_sentiment\<close>
  method, given here as that bound method; \<open>json_dumps\<close> is the serializer. The
  error payload is the dump of a dict with one string in it, which does not fail.
\<close>

datatype event =
    Data string
  | ErrorData error
  | Sleep nat

definition event_stream_tick ::
    "(pydict \<Rightarrow> error + string) \<Rightarrow> (int \<Rightarrow> error + pydict) option \<Rightarrow> event list" where
  "event_stream_tick json_dumps sentiment_analyzer =
     (case sentiment_analyzer of
        None \<Rightarrow> [Sleep 5]
      | Some get_avg \<Rightarrow>
          (case get_avg 50 of
             Inl e \<Rightarrow> [ErrorData e, Sleep 10]
           | Inr sentiment_data \<Rightarrow>
               (case json_dumps sentiment_data of
                  Inl e \<Rightarrow> [ErrorData e, Sleep 10]
                | Inr data \<Rightarrow> [Data data, Sleep 5])))"

text \<open>
  The \<^verbatim>\<open>while True\<close> loop of \<open>event_stream\<close> has no exit; its behaviour on the first
  ticks is given by the list of what \<open>sentiment_analyzer\<close> holds at each of them.
\<close>

fun event_stream ::
    "(pydict \<Rightarrow> error + string) \<Rightarrow> (int \<Rightarrow> error + pydict) option list \<Rightarrow> event list" where
  "event_stream json_dumps [] = []"
| "event_stream json_dumps (a # ticks) =
     event_stream_tick json_dumps a @ event_stream json_dumps ticks"

section \<open>Facts about the bounded deques\<close>

lemma deque_append_drop:
  "length xs \<le> m \<Longrightarrow> deque_append m x xs = drop (Suc (length xs) - m) (xs @ [x])"
proof (cases "length xs = m")
  case True
  then have "Suc (length xs) - m = 1" by simp
  moreover have "deque_append m x xs = tl (xs @ [x])"
    using True by (simp add: deque_append_def Let_def)
  moreover have "tl (xs @ [x]) = drop 1 (xs @ [x])"
    by (simp only: One_nat_def drop_Suc drop_0)
  ultimately show ?thesis by (simp only:)
next
  case False
  assume "length xs \<le> m"
  with False have "length xs < m" by simp
  then show ?thesis by (simp add: deque_append_def Let_def)
qed

lemma deque_append_length:
  "length xs \<le> m \<Longrightarrow> length (deque_append m x xs) \<le> m"
  by (simp add: deque_append_def Let_def)

lemma fold_deque_append:
  "length xs \<le> m \<Longrightarrow>
     fold (deque_append m) ys xs = drop (length xs + length ys - m) (xs @ ys)"
proof (induction ys arbitrary: xs)
  case Nil
  then show ?case by simp
next
  case (Cons y ys)
  define k where "k = Suc (length xs) - m"
  define d where "d = drop k (xs @ [y])"
  have k_le: "k \<le> Suc (length xs)" by (simp add: k_def)
  have step: "deque_append m y xs = d"
    using Cons.prems by (simp add: deque_append_drop k_def d_def)
  have len_d: "length d = Suc (length xs) - k" by (simp add: d_def)
  have d_le: "length d \<le> m" using Cons.prems by (simp add: len_d k_def)
  have app: "d @ ys = drop k (xs @ y # ys)"
  proof -
    have "drop k ((xs @ [y]) @ ys) = drop k (xs @ [y]) @ drop (k - length (xs @ [y])) ys"
      by (rule drop_append)
    moreover have "k - length (xs @ [y]) = 0" using k_le by simp
    ultimately have "drop k ((xs @ [y]) @ ys) = d @ ys" by (simp only: d_def drop_0)
    then show ?thesis by simp
  qed
  have arith: "length d + length ys - m + k = length xs + length (y # ys) - m"
    using Cons.prems by (simp add: len_d k_def)
  have "fold (deque_append m) (y # ys) xs = fold (deque_append m) ys d"
    by (simp add: step)
  also have "\<dots> = drop (length d + length ys - m) (d @ ys)"
    using d_le by (rule Cons.IH)
  also have "\<dots> = drop (length d + length ys - m + k) (xs @ y # ys)"
    by (simp only: app drop_drop)
  finally show ?case by (simp only: arith)
qed

lemma record_all_recent_messages:
  "recent_messages (record_all es s) = fold (deque_append N_max) (map fst es) (recent_messages s)"
  by (induction es s rule: record_all.induct) (simp_all add: update_cache_def)

lemma record_all_sentiment_cache:
  "sentiment_cache (record_all es s) = fold (deque_append N_max) (map snd es) (sentiment_cache s)"
  by (induction es s rule: record_all.induct) (simp_all add: update_cache_def)

lemma fold_deque_append_length:
  "length xs \<le> m \<Longrightarrow> length (fold (deque_append m) ys xs) \<le> m"
  by (induction ys arbitrary: xs) (simp_all add: deque_append_length)

lemma update_cache_inv: "cache_inv s \<Longrightarrow> cache_inv (update_cache e sc s)"
  by (auto simp: cache_inv_def update_cache_def deque_append_def Let_def)

lemma print_caches [simp]:
  "recent_messages (print ls s) = recent_messages s"
  "sentiment_cache (print ls s) = sentiment_cache s"
  by (simp_all add: print_def)

lemma print_inv: "cache_inv (print ls s) = cache_inv s"
  by (simp add: cache_inv_def)

lemma process_message_inv: "cache_inv s \<Longrightarrow> cache_inv (process_message env s u c m)"
  by (auto simp: process_message_def store_message_def store_sentiment_def print_inv
        Let_def cache_inv_def update_cache_def deque_append_def
      split: sum.splits option.splits prod.splits)

lemma listen_step_inv:
  "cache_inv (analyzer r) \<Longrightarrow> listen_step env r raw = Inr r' \<Longrightarrow> cache_inv (analyzer r')"
  by (auto simp: listen_step_def Let_def print_inv process_message_inv
      split: if_splits option.splits prod.splits)

lemma listen_inv:
  "cache_inv (analyzer r) \<Longrightarrow> listen r ls = Inr r' \<Longrightarrow> cache_inv (analyzer r')"
proof (induction r ls rule: listen.induct)
  case (1 r)
  then show ?case by simp
next
  case (2 r env raw rest)
  then show ?case
    by (auto split: sum.splits dest: listen_step_inv)
qed

lemma record_all_init_bounded:
  "length (recent_messages (record_all es init)) \<le> N_max \<and>
   length (sentiment_cache (record_all es init)) \<le> N_max"
  by (simp add: record_all_recent_messages record_all_sentiment_cache
        fold_deque_append_length init_def)

lemma record_all_init_drop:
  "recent_messages (record_all es init) = drop (length es - N_max) (map fst es) \<and>
   sentiment_cache (record_all es init) = drop (length es - N_max) (map snd es)"
  by (simp add: record_all_recent_messages record_all_sentiment_cache
        fold_deque_append init_def)

section \<open>Facts about splitting a line\<close>

lemma count_list_split:
  assumes "sep \<in> set s"
  shows "count_list s sep = Suc (count_list (tl (dropWhile (\<lambda>c. c \<noteq> sep) s)) sep)"
proof -
  let ?P = "\<lambda>c. c \<noteq> sep"
  have d: "dropWhile ?P s \<noteq> []" using assms by (simp add: dropWhile_eq_Nil_conv)
  then have hd: "hd (dropWhile ?P s) = sep" using hd_dropWhile [of ?P s] by simp
  have "s = takeWhile ?P s @ dropWhile ?P s" by simp
  also have "dropWhile ?P s = sep # tl (dropWhile ?P s)" using d hd by (cases "dropWhile ?P s") simp_all
  finally have "count_list s sep
      = count_list (takeWhile ?P s @ sep # tl (dropWhile ?P s)) sep" by simp
  also have "\<dots> = count_list (takeWhile ?P s) sep + Suc (count_list (tl (dropWhile ?P s)) sep)"
    by simp
  also have "count_list (takeWhile ?P s) sep = 0"
    by (simp add: count_list_0_iff) (metis (mono_tags, lifting) set_takeWhileD)
  finally show ?thesis by simp
qed

lemma length_split_max:
  "length (split_max sep n s) = Suc (min n (count_list s sep))"
proof (induction n arbitrary: s)
  case 0
  then show ?case by simp
next
  case (Suc n)
  show ?case
  proof (cases "sep \<in> set s")
    case True
    then show ?thesis using Suc.IH count_list_split [OF True] by simp
  next
    case False
    then have "count_list s sep = 0" by (simp add: count_list_0_iff)
    with False show ?thesis by simp
  qed
qed

lemma hd_split_max:
  "hd (split_max sep (Suc n) s) = takeWhile (\<lambda>c. c \<noteq> sep) s"
proof (cases "sep \<in> set s")
  case True
  then show ?thesis by simp
next
  case False
  then have "\<forall>c\<in>set s. c \<noteq> sep" by auto
  then have tw: "takeWhile (\<lambda>c. c \<noteq> sep) s = s"
    by (rule takeWhile_eq_all_conv [THEN iffD2])
  show ?thesis using False by (simp only: split_max.simps if_False tw list.sel)
qed

lemma startswith_colon: "startswith s '':'' \<longleftrightarrow> (\<exists>t. s = CHR '':'' # t)"
  by (cases s) (simp_all add: startswith_def)

lemma startswith_first_part:
  "startswith (takeWhile (\<lambda>c. c \<noteq> CHR '' '') s) '':'' = startswith s '':''"
  by (cases s) (auto simp: startswith_colon)

lemma colon_not_ping: "startswith s '':'' \<Longrightarrow> \<not> startswith s ''PING''"
  by (cases s) (auto simp: startswith_def)

lemma parse_irc_message_cases:
  "parse_irc_message raw =
     (if contains ''PRIVMSG'' raw \<and> startswith raw '':'' \<and> 3 \<le> count_list raw CHR '' ''
      then (Some (split_first CHR ''!'' (drop 1 (split_max CHR '' '' 3 raw ! 0))),
            Some (if startswith (split_max CHR '' '' 3 raw ! 2) ''#''
                  then drop 1 (split_max CHR '' '' 3 raw ! 2) else split_max CHR '' '' 3 raw ! 2),
            Some (if startswith (split_max CHR '' '' 3 raw ! 3) '':''
                  then drop 1 (split_max CHR '' '' 3 raw ! 3) else split_max CHR '' '' 3 raw ! 3))
      else (None, None, None))"
proof -
  let ?parts = "split_max CHR '' '' 3 raw"
  have len: "4 \<le> length ?parts \<longleftrightarrow> 3 \<le> count_list raw CHR '' ''"
    by (simp add: length_split_max)
  have "?parts \<noteq> []" using length_split_max [of "CHR '' ''" 3 raw] by auto
  then have "?parts ! 0 = hd ?parts" by (simp add: hd_conv_nth)
  also have "\<dots> = takeWhile (\<lambda>c. c \<noteq> CHR '' '') raw"
    using hd_split_max [of "CHR '' ''" 2 raw] by (simp add: numeral_3_eq_3)
  finally have first: "startswith (?parts ! 0) '':'' = startswith raw '':''"
    by (simp add: startswith_first_part)
  show ?thesis
    unfolding parse_irc_message_def Let_def
    using len first colon_not_ping [of raw] by auto
qed

lemma event_stream_append:
  "event_stream json_dumps (xs @ ys) = event_stream json_dumps xs @ event_stream json_dumps ys"
  by (induction xs) simp_all

section \<open>Persistence failures and the cache\<close>

text \<open>
  C1, as the code has it. When \<open>store_message\<close> and the classifier succeed and
  \<open>store_sentiment\<close> raises, \<open>process_message\<close> catches the exception and prints it;
  the two cache sequences are left as they were (no entry and no score is appended),
  the message row stays in \<open>twitch_messages\<close> and no sentiment row is written.
\<close>

theorem process_message_sentiment_fault:
  assumes "store_message_fault env = None"
    and "predict env message = Inr p"
    and "store_sentiment_fault env = Some e"
  shows "recent_messages (process_message env self user channel message) = recent_messages self \<and>
         sentiment_cache (process_message env self user channel message) = sentiment_cache self \<and>
         console (process_message env self user channel message)
           = console self @ [ProcessingError e] \<and>
         twitch_messages (process_message env self user channel message)
           = twitch_messages self @
               [(int (length (twitch_messages self)) + 1, utcnow env 0, user, channel, message)] \<and>
         message_sentiments (process_message env self user channel message)
           = message_sentiments self"
  using assms
  by (simp add: process_message_def store_message_def analyze_sentiment_def
        store_sentiment_def print_def Let_def)

theorem process_message_sentiment_fault_witness:
  "recent_messages
     (process_message
        \<lparr>store_message_fault = None, predict = (\<lambda>m. Inr ''pos''),
         store_sentiment_fault = Some SqliteError, send_fault = None,
         utcnow = (\<lambda>k. ''2024-01-01T00:00:00'')\<rparr>
        init ''bob'' ''c1'' ''great stream'') = recent_messages init
   \<and> console
     (process_message
        \<lparr>store_message_fault = None, predict = (\<lambda>m. Inr ''pos''),
         store_sentiment_fault = Some SqliteError, send_fault = None,
         utcnow = (\<lambda>k. ''2024-01-01T00:00:00'')\<rparr>
        init ''bob'' ''c1'' ''great stream'') = console init @ [ProcessingError SqliteError]"
  using process_message_sentiment_fault
    [of "\<lparr>store_message_fault = None, predict = (\<lambda>m. Inr ''pos''),
         store_sentiment_fault = Some SqliteError, send_fault = None,
         utcnow = (\<lambda>k. ''2024-01-01T00:00:00'')\<rparr>"
        "''great stream''" "''pos''" SqliteError init "''bob''" "''c1''"]
  by simp

text \<open>
  The first message of a run with a failing sentiment insert: the message is stored,
  both cache sequences stay empty.
\<close>

theorem sentiment_fault_skips_cache_counterexample:
  "store_message_fault
     \<lparr>store_message_fault = None, predict = (\<lambda>m. Inr ''pos''),
      store_sentiment_fault = Some SqliteError, send_fault = None,
      utcnow = (\<lambda>k. ''2024-01-01T00:00:00'')\<rparr> = None
   \<and> twitch_messages
     (process_message
        \<lparr>store_message_fault = None, predict = (\<lambda>m. Inr ''pos''),
         store_sentiment_fault = Some SqliteError, send_fault = None,
         utcnow = (\<lambda>k. ''2024-01-01T00:00:00'')\<rparr>
        init ''bob'' ''c1'' ''great stream'')
       = [(1, ''2024-01-01T00:00:00'', ''bob'', ''c1'', ''great stream'')]
   \<and> recent_messages
     (process_message
        \<lparr>store_message_fault = None, predict = (\<lambda>m. Inr ''pos''),
         store_sentiment_fault = Some SqliteError, send_fault = None,
         utcnow = (\<lambda>k. ''2024-01-01T00:00:00'')\<rparr>
        init ''bob'' ''c1'' ''great stream'') = []
   \<and> sentiment_cache
     (process_message
        \<lparr>store_message_fault = None, predict = (\<lambda>m. Inr ''pos''),
         store_sentiment_fault = Some SqliteError, send_fault = None,
         utcnow = (\<lambda>k. ''2024-01-01T00:00:00'')\<rparr>
        init ''bob'' ''c1'' ''great stream'') = []"
  by (simp add: process_message_def store_message_def analyze_sentiment_def
        store_sentiment_def print_def init_def Let_def)

section \<open>The aggregate\<close>

text \<open>
  C2. On a non-empty cache the aggregate does not return a snapshot. After one
  processed message the cache holds the score \<open>1\<close>; the body of
  \<open>get_average_sentiment\<close> raises \<open>TypeError\<close> at the slice of the deque, and the
  call \<open>sentiment_analyzer.get_average_sentiment(50)\<close> of the stream publisher raises
  \<open>AttributeError\<close>, the function being no attribute of the class.
\<close>

theorem get_average_sentiment_nonempty_raises:
  "sentiment_cache
     (process_message
        \<lparr>store_message_fault = None, predict = (\<lambda>m. Inr ''pos''),
         store_sentiment_fault = None, send_fault = None,
         utcnow = (\<lambda>k. ''2024-01-01T00:00:00'')\<rparr>
        init ''bob'' ''c1'' ''great stream'') = [1]
   \<and> get_average_sentiment ''2024-01-01T00:00:05''
     (process_message
        \<lparr>store_message_fault = None, predict = (\<lambda>m. Inr ''pos''),
         store_sentiment_fault = None, send_fault = None,
         utcnow = (\<lambda>k. ''2024-01-01T00:00:00'')\<rparr>
        init ''bob'' ''c1'' ''great stream'') 50 = Inl TypeError
   \<and> call_get_average_sentiment ''2024-01-01T00:00:05''
     (process_message
        \<lparr>store_message_fault = None, predict = (\<lambda>m. Inr ''pos''),
         store_sentiment_fault = None, send_fault = None,
         utcnow = (\<lambda>k. ''2024-01-01T00:00:00'')\<rparr>
        init ''bob'' ''c1'' ''great stream'') 50 = Inl AttributeError"
  by (simp add: process_message_def store_message_def analyze_sentiment_def
        store_sentiment_def print_def init_def Let_def update_cache_def deque_append_def
        N_max_def get_average_sentiment_def deque_getitem_slice_def
        call_get_average_sentiment_def SentimentClassifier_attributes_def)

text \<open>
  C3, as the code has it. On an empty cache the body of \<open>get_average_sentiment\<close>
  returns, for every window, without raising, the dict with \<open>average_sentiment\<close> 0,
  \<open>message_count\<close> 0 and the timestamp; it has no bucket counts.
\<close>

theorem get_average_sentiment_empty:
  assumes "sentiment_cache self = []"
  shows "get_average_sentiment now self w
           = Inr [(''average_sentiment'', PInt 0), (''message_count'', PInt 0),
                  (''timestamp'', PStr now)]"
  using assms by (simp add: get_average_sentiment_def)

theorem get_average_sentiment_empty_witness:
  "sentiment_cache init = [] \<and>
   get_average_sentiment ''2024-01-01T00:00:05'' init 50
     = Inr [(''average_sentiment'', PInt 0), (''message_count'', PInt 0),
            (''timestamp'', PStr ''2024-01-01T00:00:05'')]"
proof -
  have h: "sentiment_cache init = []" by (simp add: init_def)
  show ?thesis
    using h get_average_sentiment_empty [OF h, of "''2024-01-01T00:00:05''" 50] by simp
qed

text \<open>The dict returned on the empty cache has no \<open>sentiment_distribution\<close> and no
  bucket of its own.\<close>

theorem empty_snapshot_no_buckets_counterexample:
  "get_average_sentiment ''2024-01-01T00:00:05'' init 50
     = Inr [(''average_sentiment'', PInt 0), (''message_count'', PInt 0),
            (''timestamp'', PStr ''2024-01-01T00:00:05'')]
   \<and> map_of [(''average_sentiment'', PInt 0), (''message_count'', PInt 0),
            (''timestamp'', PStr ''2024-01-01T00:00:05'')] ''sentiment_distribution'' = None
   \<and> map_of [(''average_sentiment'', PInt 0), (''message_count'', PInt 0),
            (''timestamp'', PStr ''2024-01-01T00:00:05'')] ''positive'' = None
   \<and> map_of [(''average_sentiment'', PInt 0), (''message_count'', PInt 0),
            (''timestamp'', PStr ''2024-01-01T00:00:05'')] ''neutral'' = None
   \<and> map_of [(''average_sentiment'', PInt 0), (''message_count'', PInt 0),
            (''timestamp'', PStr ''2024-01-01T00:00:05'')] ''negative'' = None"
  by (simp add: get_average_sentiment_def init_def)

text \<open>
  C5. Counting one more score \<open>s\<close> increments exactly one of the three buckets:
  positive if and only if \<open>s > 0.1\<close>, neutral if and only if \<open>-0.1 \<le> s \<le> 0.1\<close>,
  negative if and only if \<open>s < -0.1\<close>; so the three counts of a sequence add up to
  its length.
\<close>

theorem bucketing_exclusive_total:
  "positive_count (xs @ [s]) = positive_count xs + (if s > 0.1 then 1 else 0) \<and>
   neutral_count (xs @ [s]) = neutral_count xs + (if - 0.1 \<le> s \<and> s \<le> 0.1 then 1 else 0) \<and>
   negative_count (xs @ [s]) = negative_count xs + (if s < - 0.1 then 1 else 0) \<and>
   (if s > 0.1 then 1 else 0) + (if - 0.1 \<le> s \<and> s \<le> 0.1 then 1 else 0)
     + (if s < - 0.1 then 1 else 0) = (1::nat) \<and>
   positive_count xs + neutral_count xs + negative_count xs = length xs"
proof -
  have "positive_count ys + neutral_count ys + negative_count ys = length ys" for ys
    by (induction ys) (auto simp: positive_count_def neutral_count_def negative_count_def)
  then show ?thesis
    by (auto simp: positive_count_def neutral_count_def negative_count_def)
qed

theorem bucketing_exclusive_total_witness:
  "positive_count ([1, - 1] @ [0]) = positive_count [1, - 1] \<and>
   neutral_count ([1, - 1] @ [0]) = neutral_count [1, - 1] + 1 \<and>
   negative_count ([1, - 1] @ [0]) = negative_count [1, - 1]"
  using bucketing_exclusive_total [of "[1, - 1]" 0] by simp

section \<open>The bounded cache\<close>

text \<open>
  C4. Starting from the empty cache of capacity \<open>N_max = 1000\<close>, after every prefix
  of \<open>N_max + 1\<close> cache updates both sequences hold at most \<open>N_max\<close> elements; after
  the last one they hold the entries and scores of all updates but the first, in
  order: the newest is present, and the oldest entry, when no later one equals it, is
  absent.
\<close>

theorem fifo_eviction:
  assumes "length es = N_max + 1"
  shows "N_max = 1000 \<and>
    (\<forall>k. length (recent_messages (record_all (take k es) init)) \<le> N_max \<and>
         length (sentiment_cache (record_all (take k es) init)) \<le> N_max) \<and>
    recent_messages (record_all es init) = tl (map fst es) \<and>
    sentiment_cache (record_all es init) = tl (map snd es) \<and>
    fst (last es) \<in> set (recent_messages (record_all es init)) \<and>
    snd (last es) \<in> set (sentiment_cache (record_all es init)) \<and>
    (distinct (map fst es) \<longrightarrow> fst (hd es) \<notin> set (recent_messages (record_all es init)))"
proof -
  have n: "N_max = 1000" by (rule N_max_def)
  obtain e es' where es: "es = e # es'" and len': "length es' = N_max"
    using assms by (cases es) simp_all
  have ne: "es' \<noteq> []" using len' n by auto
  have one: "length es - N_max = 1" using assms by simp
  have rm: "recent_messages (record_all es init) = tl (map fst es)"
    using record_all_init_drop [of es] by (simp add: one drop_Suc)
  have sc: "sentiment_cache (record_all es init) = tl (map snd es)"
    using record_all_init_drop [of es] by (simp add: one drop_Suc)
  have newest: "fst (last es) \<in> set (tl (map fst es))"
    using ne by (simp add: es)
  have newest': "snd (last es) \<in> set (tl (map snd es))"
    using ne by (simp add: es)
  have oldest: "distinct (map fst es) \<longrightarrow> fst (hd es) \<notin> set (tl (map fst es))"
    by (simp add: es)
  show ?thesis
    using n record_all_init_bounded rm sc newest newest' oldest by simp
qed

theorem fifo_eviction_witness:
  "length (map (\<lambda>i. (cache_entry ''bob'' ''c1'' ''ok'' 1 (replicate i CHR ''t''), 1::real))
             [0..<1001]) = N_max + 1 \<and>
   distinct (map fst (map (\<lambda>i. (cache_entry ''bob'' ''c1'' ''ok'' 1 (replicate i CHR ''t''), 1::real))
             [0..<1001])) \<and>
   fst (hd (map (\<lambda>i. (cache_entry ''bob'' ''c1'' ''ok'' 1 (replicate i CHR ''t''), 1::real))
             [0..<1001]))
     \<notin> set (recent_messages (record_all
          (map (\<lambda>i. (cache_entry ''bob'' ''c1'' ''ok'' 1 (replicate i CHR ''t''), 1::real))
             [0..<1001]) init)) \<and>
   fst (last (map (\<lambda>i. (cache_entry ''bob'' ''c1'' ''ok'' 1 (replicate i CHR ''t''), 1::real))
             [0..<1001]))
     \<in> set (recent_messages (record_all
          (map (\<lambda>i. (cache_entry ''bob'' ''c1'' ''ok'' 1 (replicate i CHR ''t''), 1::real))
             [0..<1001]) init)) \<and>
   length (recent_messages (record_all
          (map (\<lambda>i. (cache_entry ''bob'' ''c1'' ''ok'' 1 (replicate i CHR ''t''), 1::real))
             [0..<1001]) init)) \<le> 1000"
proof -
  let ?es = "map (\<lambda>i. (cache_entry ''bob'' ''c1'' ''ok'' 1 (replicate i CHR ''t''), 1::real))
               [0..<1001]"
  have h1: "length ?es = N_max + 1" by (simp add: N_max_def)
  have h2: "distinct (map fst ?es)"
    by (simp add: distinct_map o_def inj_on_def cache_entry_def)
  have "take 1001 ?es = ?es" by simp
  with fifo_eviction [OF h1] h1 h2 show ?thesis
    by (metis (no_types, lifting))
qed

text \<open>
  C8. The two cache sequences are equally long and hold at most \<open>N_max = 1000\<close>
  elements in the initial state, and this is preserved by the cache update, by
  \<open>process_message\<close> whatever fails in it, and by every run of the listen loop.
\<close>

theorem cache_invariant_preserved:
  "N_max = 1000 \<and> cache_inv init \<and>
   (cache_inv s \<longrightarrow>
      cache_inv (update_cache entry sentiment_score s) \<and>
      cache_inv (process_message env s user channel message) \<and>
      (\<forall>r ls r'. analyzer r = s \<and> listen r ls = Inr r' \<longrightarrow> cache_inv (analyzer r')))"
proof -
  have "cache_inv init" by (simp add: cache_inv_def init_def)
  moreover have "N_max = 1000" by (rule N_max_def)
  ultimately show ?thesis
    using update_cache_inv process_message_inv listen_inv by blast
qed

theorem cache_invariant_preserved_witness:
  "cache_inv init \<and>
   listen \<lparr>message_count = 0, outbox = [], analyzer = init\<rparr>
     [(\<lparr>store_message_fault = None, predict = (\<lambda>m. Inr ''pos''),
        store_sentiment_fault = None, send_fault = None,
        utcnow = (\<lambda>k. ''2024-01-01T00:00:00'')\<rparr>,
       '':alice!alice@x PRIVMSG #somechannel :hello world'')]
   = Inr \<lparr>message_count = 1, outbox = [],
          analyzer = \<lparr>recent_messages =
              [cache_entry ''alice'' ''somechannel'' ''hello world'' 1 ''2024-01-01T00:00:00''],
            sentiment_cache = [1],
            twitch_messages =
              [(1, ''2024-01-01T00:00:00'', ''alice'', ''somechannel'', ''hello world'')],
            message_sentiments = [(1, 1, 1, ''2024-01-01T00:00:00'')],
            console = [Received 1 ''alice'' ''somechannel'' ''hello world'',
                       Stored ''alice'' ''somechannel'' ''hello world'',
                       Sentiment ''POSITIVE'' 1]\<rparr>\<rparr> \<and>
   cache_inv \<lparr>recent_messages =
              [cache_entry ''alice'' ''somechannel'' ''hello world'' 1 ''2024-01-01T00:00:00''],
            sentiment_cache = [1],
            twitch_messages =
              [(1, ''2024-01-01T00:00:00'', ''alice'', ''somechannel'', ''hello world'')],
            message_sentiments = [(1, 1, 1, ''2024-01-01T00:00:00'')],
            console = [Received 1 ''alice'' ''somechannel'' ''hello world'',
                       Stored ''alice'' ''somechannel'' ''hello world'',
                       Sentiment ''POSITIVE'' 1]\<rparr>"
proof -
  let ?r = "\<lparr>message_count = 0, outbox = [], analyzer = init\<rparr>"
  let ?env = "\<lparr>store_message_fault = None, predict = (\<lambda>m. Inr ''pos''),
        store_sentiment_fault = None, send_fault = None,
        utcnow = (\<lambda>k. ''2024-01-01T00:00:00'')\<rparr>"
  let ?line = "'':alice!alice@x PRIVMSG #somechannel :hello world''"
  let ?a = "\<lparr>recent_messages =
              [cache_entry ''alice'' ''somechannel'' ''hello world'' 1 ''2024-01-01T00:00:00''],
            sentiment_cache = [1],
            twitch_messages =
              [(1, ''2024-01-01T00:00:00'', ''alice'', ''somechannel'', ''hello world'')],
            message_sentiments = [(1, 1, 1, ''2024-01-01T00:00:00'')],
            console = [Received 1 ''alice'' ''somechannel'' ''hello world'',
                       Stored ''alice'' ''somechannel'' ''hello world'',
                       Sentiment ''POSITIVE'' 1]\<rparr>"
  have np: "\<not> contains ''PING'' ?line"
    by code_simp
  have p: "parse_irc_message ?line = (Some ''alice'', Some ''somechannel'', Some ''hello world'')"
    by code_simp
  have run: "listen ?r [(?env, ?line)] = Inr \<lparr>message_count = 1, outbox = [], analyzer = ?a\<rparr>"
    by (simp add: np p listen_step_def process_message_def store_message_def
        analyze_sentiment_def store_sentiment_def print_def init_def Let_def
        update_cache_def deque_append_def N_max_def del: contains.simps)
  have inv0: "cache_inv init"
    by (simp add: cache_inv_def init_def)
  have "analyzer ?r = init" by simp
  with inv0 run
    cache_invariant_preserved
      [of init "PStr ''entry''" 1 ?env "''alice''" "''somechannel''" "''hello world''"]
  have "cache_inv (analyzer \<lparr>message_count = 1, outbox = [], analyzer = ?a\<rparr>)"
    by blast
  with inv0 run show ?thesis by simp
qed

section \<open>The wire format\<close>

text \<open>
  C6. Parsing the line \<open>:alice!alice@x PRIVMSG #somechannel :hello world\<close> gives the
  user \<open>alice\<close> (before the first \<open>!\<close>, without the leading colon), the channel
  \<open>somechannel\<close> (without its \<open>#\<close>) and the text \<open>hello world\<close> (after the colon that
  follows the channel).
\<close>

theorem parse_irc_message_alice:
  "parse_irc_message '':alice!alice@x PRIVMSG #somechannel :hello world''
     = (Some ''alice'', Some ''somechannel'', Some ''hello world'')"
  by code_simp

text \<open>
  C7, as the code has it. \<open>parse_irc_message\<close> raises on no line. It returns
  \<open>(None, None, None)\<close> exactly for the lines that do not contain \<open>PRIVMSG\<close>, or do
  not begin with a colon, or have fewer than three spaces; every other line gives a
  triple, whether or not it has a \<open>!\<close>, a \<open>#\<close> or a colon before the text. A line that
  gives no triple and does not contain \<open>PING\<close> leaves the reader as it was, and no
  line without \<open>PING\<close> ends the listen loop.
\<close>

theorem parse_irc_message_dropped:
  "(parse_irc_message raw = (None, None, None)
      \<longleftrightarrow> \<not> (contains ''PRIVMSG'' raw \<and> startswith raw '':'' \<and> 3 \<le> count_list raw CHR '' ''))
   \<and> (parse_irc_message raw = (None, None, None) \<and> \<not> contains ''PING'' raw
        \<longrightarrow> listen_step env r raw = Inr r)
   \<and> (\<not> contains ''PING'' raw \<longrightarrow> (\<exists>r'. listen_step env r raw = Inr r'))"
proof -
  have a: "parse_irc_message raw = (None, None, None)
      \<longleftrightarrow> \<not> (contains ''PRIVMSG'' raw \<and> startswith raw '':'' \<and> 3 \<le> count_list raw CHR '' '')"
    by (simp add: parse_irc_message_cases)
  have b: "parse_irc_message raw = (None, None, None) \<and> \<not> contains ''PING'' raw
        \<longrightarrow> listen_step env r raw = Inr r"
    by (simp add: listen_step_def)
  have c: "\<not> contains ''PING'' raw \<longrightarrow> (\<exists>r'. listen_step env r raw = Inr r')"
    by (simp add: listen_step_def Let_def split: prod.splits)
  from a b c show ?thesis by blast
qed

theorem parse_irc_message_dropped_witness:
  "\<not> contains ''PRIVMSG'' '':tmi.twitch.tv 001 justinfan12345 :Welcome, GLHF!'' \<and>
   \<not> contains ''PING'' '':tmi.twitch.tv 001 justinfan12345 :Welcome, GLHF!'' \<and>
   parse_irc_message '':tmi.twitch.tv 001 justinfan12345 :Welcome, GLHF!'' = (None, None, None) \<and>
   listen_step
     \<lparr>store_message_fault = None, predict = (\<lambda>m. Inr ''pos''),
      store_sentiment_fault = None, send_fault = None,
      utcnow = (\<lambda>k. ''2024-01-01T00:00:00'')\<rparr>
     \<lparr>message_count = 0, outbox = [], analyzer = init\<rparr>
     '':tmi.twitch.tv 001 justinfan12345 :Welcome, GLHF!''
     = Inr \<lparr>message_count = 0, outbox = [], analyzer = init\<rparr>"
proof -
  have h1: "\<not> contains ''PRIVMSG'' '':tmi.twitch.tv 001 justinfan12345 :Welcome, GLHF!''"
    by code_simp
  have h2: "\<not> contains ''PING'' '':tmi.twitch.tv 001 justinfan12345 :Welcome, GLHF!''"
    by code_simp
  show ?thesis
    using h1 h2
      parse_irc_message_dropped
        [of "'':tmi.twitch.tv 001 justinfan12345 :Welcome, GLHF!''"
            "\<lparr>store_message_fault = None, predict = (\<lambda>m. Inr ''pos''),
              store_sentiment_fault = None, send_fault = None,
              utcnow = (\<lambda>k. ''2024-01-01T00:00:00'')\<rparr>"
            "\<lparr>message_count = 0, outbox = [], analyzer = init\<rparr>"]
    by blast
qed

text \<open>
  A line without \<open>!\<close>, without \<open>#\<close> and without a colon before its text is not of
  the chat-post shape, and is parsed into a chat event.
\<close>

theorem lenient_parse_counterexample:
  "\<not> spec_chat_post_shape '':foo bar baz PRIVMSG'' \<and>
   parse_irc_message '':foo bar baz PRIVMSG'' = (Some ''foo'', Some ''baz'', Some ''PRIVMSG'')"
  by code_simp

text \<open>
  C10. For every line that contains \<open>PING\<close> anywhere, a chat-post line included, the
  listen loop sends \<open>PONG :tmi.twitch.tv\<close> and goes on to the next line: the message
  count and the classifier state are unchanged, so no chat event is produced (when the
  send itself raises, the loop ends with that exception, again without a chat event).
\<close>

theorem ping_anywhere_keepalive:
  "contains ''PING'' raw \<longrightarrow>
     listen_step env r raw =
       (case send_fault env of
          Some e \<Rightarrow> Inl e
        | None \<Rightarrow> Inr (r\<lparr>outbox := outbox r @ [''PONG :tmi.twitch.tv'']\<rparr>)) \<and>
     (\<forall>r'. listen_step env r raw = Inr r' \<longrightarrow>
        message_count r' = message_count r \<and> analyzer r' = analyzer r \<and>
        outbox r' = outbox r @ [''PONG :tmi.twitch.tv''])"
  by (auto simp: listen_step_def split: option.splits)

theorem ping_anywhere_keepalive_witness:
  "contains ''PING'' '':alice!alice@x PRIVMSG #somechannel :PING me'' \<and>
   parse_irc_message '':alice!alice@x PRIVMSG #somechannel :PING me''
     = (Some ''alice'', Some ''somechannel'', Some ''PING me'') \<and>
   listen_step
     \<lparr>store_message_fault = None, predict = (\<lambda>m. Inr ''pos''),
      store_sentiment_fault = None, send_fault = None,
      utcnow = (\<lambda>k. ''2024-01-01T00:00:00'')\<rparr>
     \<lparr>message_count = 0, outbox = [], analyzer = init\<rparr> '':alice!alice@x PRIVMSG #somechannel :PING me''
     = Inr \<lparr>message_count = 0, outbox = [''PONG :tmi.twitch.tv''], analyzer = init\<rparr>"
proof -
  have h: "contains ''PING'' '':alice!alice@x PRIVMSG #somechannel :PING me''"
    by code_simp
  have p: "parse_irc_message '':alice!alice@x PRIVMSG #somechannel :PING me''
     = (Some ''alice'', Some ''somechannel'', Some ''PING me'')"
    by code_simp
  show ?thesis
    using h p ping_anywhere_keepalive
      [of "'':alice!alice@x PRIVMSG #somechannel :PING me''"
          "\<lparr>store_message_fault = None, predict = (\<lambda>m. Inr ''pos''),
      store_sentiment_fault = None, send_fault = None,
      utcnow = (\<lambda>k. ''2024-01-01T00:00:00'')\<rparr>"
          "\<lparr>message_count = 0, outbox = [], analyzer = init\<rparr>"]
    by simp
qed

section \<open>The stream publisher's ticks\<close>

text \<open>
  C9. A tick at which computing the snapshot or serializing it raises yields the
  error payload instead of a snapshot, then sleeps 10 seconds, and the loop goes on
  with the following ticks; a tick without an error yields the snapshot and sleeps 5
  seconds.
\<close>

theorem event_stream_error_tick:
  "(get_avg 50 = Inl e \<or> (\<exists>d. get_avg 50 = Inr d \<and> json_dumps d = Inl e) \<longrightarrow>
      event_stream json_dumps (before @ Some get_avg # after)
        = event_stream json_dumps before @ [ErrorData e, Sleep 10] @ event_stream json_dumps after)
   \<and> (get_avg 50 = Inr d \<and> json_dumps d = Inr data \<longrightarrow>
      event_stream json_dumps (before @ Some get_avg # after)
        = event_stream json_dumps before @ [Data data, Sleep 5] @ event_stream json_dumps after)"
  by (auto simp: event_stream_append event_stream_tick_def)

theorem event_stream_error_tick_witness:
  "call_get_average_sentiment ''2024-01-01T00:00:05'' init 50 = Inl AttributeError \<and>
   event_stream (\<lambda>d. Inr ''{}'')
       ([None] @ Some (call_get_average_sentiment ''2024-01-01T00:00:05'' init) # [None])
     = [Sleep 5, ErrorData AttributeError, Sleep 10, Sleep 5]"
proof -
  have h: "call_get_average_sentiment ''2024-01-01T00:00:05'' init 50 = Inl AttributeError"
    by (simp add: call_get_average_sentiment_def SentimentClassifier_attributes_def)
  show ?thesis
    using h event_stream_error_tick
      [of "call_get_average_sentiment ''2024-01-01T00:00:05'' init" AttributeError
          "\<lambda>d. Inr ''{}''" "[None]" "[None]"]
    by (simp add: event_stream_tick_def)
qed

end
